theory Spec2Isabelle
  imports Main
begin

section \<open>gsbq: Google Sheets to BigQuery\<close>

text \<open>
  A shallow embedding of \<^verbatim>\<open>src/gsbq/app.py\<close>. The script reads a sheet, turns the
  grid into a Polars data frame, derives a BigQuery schema from the frame's dtypes, creates
  the dataset and the table when they are missing, and appends the frame with a load job.

  Three libraries do the work the script only calls: the Sheets service, Polars (the
  \<^verbatim>\<open>DataFrame\<close> constructor and \<^verbatim>\<open>to_pandas\<close>) and BigQuery (the constructors
  \<^verbatim>\<open>Dataset\<close> and \<^verbatim>\<open>Table\<close> and the client). None of them is part of the
  repository, and each of these calls can raise, so each is a parameter of the function
  that calls it and every theorem below holds for all of their behaviours. An exception is
  a value \<open>Inl e\<close>.
\<close>

subsection \<open>Values and exceptions\<close>

text \<open>A cell of the sheet as the JSON response carries it.\<close>

datatype pyval = PyNone | PyBool bool | PyInt int | PyStr string

type_synonym grid = "pyval list list"

text \<open>
  \<open>IndexError\<close> and \<open>ValueError\<close> are Python's own (a subscript out of range; a strict
  \<^verbatim>\<open>zip\<close> over lists of different lengths, an identifier a constructor refuses).
  \<open>NotFound\<close> is
  \<^verbatim>\<open>google.api_core.exceptions.NotFound\<close>; \<open>ApiError\<close> stands for every other
  exception of the Google clients and \<open>PolarsError\<close> for every exception of Polars.
\<close>

datatype error = IndexError | ValueError | NotFound | ApiError string | PolarsError string

subsection \<open>The destination identifier\<close>

text \<open>
  \<^verbatim>\<open>dataset_id = ".".join(table_id.split(".")[:2])\<close>

  \<open>str_split\<close> is \<^verbatim>\<open>str.split\<close> with a one-character separator: it cuts at every
  occurrence and keeps empty pieces, so the result is never the empty list.
\<close>

fun str_split :: "char \<Rightarrow> string \<Rightarrow> string list" where
  "str_split sep [] = [[]]"
| "str_split sep (c # cs) =
     (if c = sep then [] # str_split sep cs
      else (case str_split sep cs of
              [] \<Rightarrow> [[c]]
            | p # ps \<Rightarrow> (c # p) # ps))"

fun str_join :: "string \<Rightarrow> string list \<Rightarrow> string" where
  "str_join sep [] = []"
| "str_join sep [p] = p"
| "str_join sep (p # q # ps) = p @ sep @ str_join sep (q # ps)"

definition dataset_id_of :: "string \<Rightarrow> string" where
  "dataset_id_of table_id = str_join ''.'' (take 2 (str_split (CHR ''.'') table_id))"

subsection \<open>The Sheets response and the Polars frame\<close>

text \<open>
  The service takes the spreadsheet id and the range and answers with the response
  dictionary or raises. Only the key \<^verbatim>\<open>"values"\<close> is read, so the dictionary is a
  map from keys to grids.
\<close>

type_synonym response = "string \<rightharpoonup> grid"

type_synonym sheets_service = "string \<Rightarrow> string \<Rightarrow> error + response"

text \<open>
  The Polars dtypes. \<open>Datetime\<close> carries a time unit and a time zone, \<open>Duration\<close> a time
  unit, \<open>Decimal\<close> a precision and a scale, \<open>ListOf\<close> the dtype of its elements,
  \<open>Array\<close> that and a width, \<open>Struct\<close> its named fields and \<open>Enum\<close> its categories;
  \<open>Utf8\<close> is the string dtype.
\<close>

datatype time_unit = Ns | Us | Ms

datatype dtype =
    Int8 | Int16 | Int32 | Int64 | Int128
  | UInt8 | UInt16 | UInt32 | UInt64 | UInt128
  | Float16 | Float32 | Float64 | Decimal "nat option" nat
  | Boolean | Utf8 | Binary
  | Date | Time | Datetime time_unit "string option" | Duration time_unit
  | Categorical | Enum "string list"
  | ListOf dtype | Array dtype nat | Struct "(string \<times> dtype) list"
  | Object | Null | Unknown

record series =
  series_name :: string
  series_dtype :: dtype
  series_values :: "pyval list"

datatype dataframe = DataFrame (series_of: "series list")

definition columns :: "dataframe \<Rightarrow> string list" where
  "columns df = map series_name (series_of df)"

definition dtypes :: "dataframe \<Rightarrow> dtype list" where
  "dtypes df = map series_dtype (series_of df)"

definition height :: "dataframe \<Rightarrow> nat" where
  "height df = (case series_of df of [] \<Rightarrow> 0 | s # _ \<Rightarrow> length (series_values s))"

text \<open>
  \<^verbatim>\<open>pl.DataFrame(rows, schema=header, orient="row")\<close>: the rows, the header, and the
  frame or the exception Polars answers with.
\<close>

type_synonym frame_constructor = "grid \<Rightarrow> pyval list \<Rightarrow> error + dataframe"

text \<open>
  \<^verbatim>\<open>dataframe.to_pandas()\<close>: the pandas frame, or the exception the conversion raises.
\<close>

datatype pandas = Pandas dataframe

type_synonym pandas_conversion = "dataframe \<Rightarrow> error + pandas"

subsection \<open>Source Reader and Normalizer\<close>

text \<open>\<^verbatim>\<open>data.get("values", [])\<close> on the response of the one request.\<close>

definition get_sheet_data :: "sheets_service \<Rightarrow> string \<Rightarrow> string \<Rightarrow> error + grid" where
  "get_sheet_data service spreadsheet_id sheet_name =
     (case service spreadsheet_id sheet_name of
        Inl e \<Rightarrow> Inl e
      | Inr data \<Rightarrow> Inr (case data ''values'' of None \<Rightarrow> [] | Some v \<Rightarrow> v))"

text \<open>A subscript with an index that is not negative: out of range it raises.\<close>

definition getitem :: "'a list \<Rightarrow> nat \<Rightarrow> error + 'a" where
  "getitem xs i = (if i < length xs then Inr (xs ! i) else Inl IndexError)"

text \<open>
  \<^verbatim>\<open>pl.DataFrame(data[1:], schema=data[0], orient="row")\<close>. Both arguments are evaluated
  before the call: the slice \<^verbatim>\<open>data[1:]\<close> never raises, the subscript
  \<^verbatim>\<open>data[0]\<close> raises on the empty list.
\<close>

definition convert_data_to_dataframe :: "frame_constructor \<Rightarrow> grid \<Rightarrow> error + dataframe" where
  "convert_data_to_dataframe pl_DataFrame data =
     (let rows = drop 1 data in
      case getitem data 0 of
        Inl e \<Rightarrow> Inl e
      | Inr header \<Rightarrow> pl_DataFrame rows header)"

subsection \<open>Schema Mapper\<close>

text \<open>
  Comparing a dtype with a dtype class, as in \<^verbatim>\<open>dtype == pl.Datetime\<close>, compares the
  classes: every \<open>Datetime\<close>, whatever its unit and zone, equals \<^verbatim>\<open>pl.Datetime\<close>.
\<close>

fun is_Datetime :: "dtype \<Rightarrow> bool" where
  "is_Datetime (Datetime _ _) = True"
| "is_Datetime _ = False"

definition field_type :: "dtype \<Rightarrow> string" where
  "field_type dtype =
     (if dtype = Int64 then ''INTEGER''
      else if dtype = Float64 then ''FLOAT''
      else if dtype = Boolean then ''BOOLEAN''
      else if is_Datetime dtype then ''DATETIME''
      else if dtype = Date then ''DATE''
      else ''STRING'')"

text \<open>\<^verbatim>\<open>zip(xs, ys, strict=True)\<close> raises when one list ends before the other.\<close>

fun zip_strict :: "'a list \<Rightarrow> 'b list \<Rightarrow> error + ('a \<times> 'b) list" where
  "zip_strict [] [] = Inr []"
| "zip_strict (x # xs) (y # ys) =
     (case zip_strict xs ys of Inl e \<Rightarrow> Inl e | Inr ps \<Rightarrow> Inr ((x, y) # ps))"
| "zip_strict _ _ = Inl ValueError"

datatype schema_field = SchemaField string string

text \<open>The loop of \<^verbatim>\<open>create_table_if_not_exists\<close> that fills \<^verbatim>\<open>schema\<close>.\<close>

definition schema_of :: "dataframe \<Rightarrow> error + schema_field list" where
  "schema_of df =
     (case zip_strict (columns df) (dtypes df) of
        Inl e \<Rightarrow> Inl e
      | Inr ps \<Rightarrow> Inr (map (\<lambda>(col_name, dtype). SchemaField col_name (field_type dtype)) ps))"

subsection \<open>The BigQuery client\<close>

datatype dataset = Dataset string

datatype table = Table string "schema_field list"

text \<open>
  The constructors \<^verbatim>\<open>bigquery.Dataset(dataset_id)\<close> and
  \<^verbatim>\<open>bigquery.Table(table_id, schema=schema)\<close>. They parse the identifier and raise on
  one that is not fully qualified, without a remote call.
\<close>

record bigquery =
  new_Dataset :: "string \<Rightarrow> error + dataset"
  new_Table :: "string \<Rightarrow> schema_field list \<Rightarrow> error + table"

text \<open>\<^verbatim>\<open>bigquery.LoadJobConfig\<close> with the two settings the script gives.\<close>

record job_config =
  autodetect :: bool
  write_disposition :: string

datatype job = LoadJob nat

text \<open>
  The methods of \<^verbatim>\<open>bigquery.Client\<close> the script calls, over a remote state \<open>'s\<close>. Each
  takes the state and answers with a value or an exception and the state after the call.
  \<open>job_result\<close> is \<^verbatim>\<open>job.result()\<close>, which waits for the job to end and raises when it
  failed.
\<close>

record 's client =
  get_dataset :: "string \<Rightarrow> 's \<Rightarrow> (error + unit) \<times> 's"
  create_dataset :: "dataset \<Rightarrow> 's \<Rightarrow> (error + unit) \<times> 's"
  get_table :: "string \<Rightarrow> 's \<Rightarrow> (error + unit) \<times> 's"
  create_table :: "table \<Rightarrow> 's \<Rightarrow> (error + unit) \<times> 's"
  load_table_from_dataframe :: "pandas \<Rightarrow> string \<Rightarrow> job_config \<Rightarrow> 's \<Rightarrow> (error + job) \<times> 's"
  job_result :: "job \<Rightarrow> 's \<Rightarrow> (error + unit) \<times> 's"

text \<open>
  What a run can change: the remote state, the calls made on the client so far (oldest
  first) and the lines printed.
\<close>

datatype call =
    GetDataset string
  | CreateDataset dataset
  | GetTable string
  | CreateTable table
  | LoadTableFromDataframe pandas string job_config
  | JobResult job

record 's world =
  remote :: 's
  calls :: "call list"
  stdout :: "string list"

definition invoke :: "call \<Rightarrow> ('s \<Rightarrow> (error + 'a) \<times> 's) \<Rightarrow> 's world \<Rightarrow> (error + 'a) \<times> 's world" where
  "invoke c f w =
     (case f (remote w) of (r, s) \<Rightarrow> (r, w\<lparr>remote := s, calls := calls w @ [c]\<rparr>))"

definition print :: "string \<Rightarrow> 's world \<Rightarrow> 's world" where
  "print line w = w\<lparr>stdout := stdout w @ [line]\<rparr>"

subsection \<open>Destination Provisioner\<close>

definition create_dataset_if_not_exists ::
  "bigquery \<Rightarrow> 's client \<Rightarrow> string \<Rightarrow> 's world \<Rightarrow> (error + unit) \<times> 's world" where
  "create_dataset_if_not_exists bigquery client dataset_id w =
     (case new_Dataset bigquery dataset_id of
        Inl e \<Rightarrow> (Inl e, w)
      | Inr dataset \<Rightarrow>
          (case invoke (GetDataset dataset_id) (get_dataset client dataset_id) w of
             (Inr _, w1) \<Rightarrow> (Inr (), w1)
           | (Inl e, w1) \<Rightarrow>
               if e = NotFound then
                 (case invoke (CreateDataset dataset) (create_dataset client dataset) w1 of
                    (Inl e2, w2) \<Rightarrow> (Inl e2, w2)
                  | (Inr _, w2) \<Rightarrow>
                      (Inr (), print (''Dataset '' @ dataset_id @ '' created.'') w2))
               else (Inl e, w1)))"

definition create_table_if_not_exists ::
  "bigquery \<Rightarrow> 's client \<Rightarrow> string \<Rightarrow> dataframe \<Rightarrow> 's world \<Rightarrow> (error + unit) \<times> 's world" where
  "create_table_if_not_exists bigquery client table_id df w =
     (case schema_of df of
        Inl e \<Rightarrow> (Inl e, w)
      | Inr schema \<Rightarrow>
          (case new_Table bigquery table_id schema of
             Inl e \<Rightarrow> (Inl e, w)
           | Inr table \<Rightarrow>
               (case invoke (GetTable table_id) (get_table client table_id) w of
                  (Inr _, w1) \<Rightarrow> (Inr (), w1)
                | (Inl e, w1) \<Rightarrow>
                    if e = NotFound then
                      (case invoke (CreateTable table) (create_table client table) w1 of
                         (Inl e2, w2) \<Rightarrow> (Inl e2, w2)
                       | (Inr _, w2) \<Rightarrow>
                           (Inr (), print (''Table '' @ table_id @ '' created.'') w2))
                    else (Inl e, w1))))"

subsection \<open>Loader\<close>

text \<open>
  The arguments of \<^verbatim>\<open>client.load_table_from_dataframe\<close> are evaluated before the call:
  when \<^verbatim>\<open>dataframe.to_pandas()\<close> raises, the call is never made.
\<close>

definition upload_to_bigquery ::
  "'s client \<Rightarrow> pandas_conversion \<Rightarrow> dataframe \<Rightarrow> string \<Rightarrow> 's world
     \<Rightarrow> (error + unit) \<times> 's world" where
  "upload_to_bigquery client to_pandas dataframe table_id w =
     (let job_config = \<lparr>autodetect = True, write_disposition = ''WRITE_APPEND''\<rparr> in
      case to_pandas dataframe of
        Inl e \<Rightarrow> (Inl e, w)
      | Inr frame \<Rightarrow>
          (case invoke (LoadTableFromDataframe frame table_id job_config)
                  (load_table_from_dataframe client frame table_id job_config) w of
             (Inl e, w1) \<Rightarrow> (Inl e, w1)
           | (Inr job, w1) \<Rightarrow> invoke (JobResult job) (job_result client job) w1))"

subsection \<open>The script\<close>

text \<open>
  The \<^verbatim>\<open>__main__\<close> block. \<^verbatim>\<open>authenticate\<close> only calls the Google libraries, so it is
  a parameter: from the key file's path to the two clients, or an exception.
\<close>

definition main ::
  "(string \<Rightarrow> error + sheets_service \<times> 's client) \<Rightarrow> bigquery \<Rightarrow> frame_constructor
     \<Rightarrow> pandas_conversion \<Rightarrow> 's world \<Rightarrow> (error + unit) \<times> 's world" where
  "main authenticate bigquery pl_DataFrame to_pandas w =
     (let sheet_name = ''Sheet1'';
          service_account_file = ''google_service_account_key.json'';
          spreadsheet_id = ''1Ba5nr8nzBh2MSVzIOpvtmHtzWqjDT4aP5G2YBkZN1mk'';
          table_id = ''gsbq-demo.gsbq_dataset.sample_table'' in
      case authenticate service_account_file of
        Inl e \<Rightarrow> (Inl e, w)
      | Inr (sheets_service, bq_client) \<Rightarrow>
         (case get_sheet_data sheets_service spreadsheet_id sheet_name of
            Inl e \<Rightarrow> (Inl e, w)
          | Inr raw_data \<Rightarrow>
             (case convert_data_to_dataframe pl_DataFrame raw_data of
                Inl e \<Rightarrow> (Inl e, w)
              | Inr processed_data \<Rightarrow>
                 (let dataset_id = dataset_id_of table_id in
                  case create_dataset_if_not_exists bigquery bq_client dataset_id w of
                    (Inl e, w1) \<Rightarrow> (Inl e, w1)
                  | (Inr _, w1) \<Rightarrow>
                     (case create_table_if_not_exists bigquery bq_client table_id
                             processed_data w1 of
                        (Inl e, w2) \<Rightarrow> (Inl e, w2)
                      | (Inr _, w2) \<Rightarrow>
                         (case upload_to_bigquery bq_client to_pandas processed_data table_id
                                 w2 of
                            (Inl e, w3) \<Rightarrow> (Inl e, w3)
                          | (Inr _, w3) \<Rightarrow>
                              (Inr (),
                               print ''Data successfully transferred from Google Sheets to BigQuery.''
                                 w3)))))))"

subsection \<open>Reading the calls of a run\<close>

fun is_create :: "call \<Rightarrow> bool" where
  "is_create (CreateDataset _) = True"
| "is_create (CreateTable _) = True"
| "is_create _ = False"

fun is_load :: "call \<Rightarrow> bool" where
  "is_load (LoadTableFromDataframe _ _ _) = True"
| "is_load _ = False"

subsection \<open>A warehouse in memory\<close>

text \<open>
  A small implementation of the client's interface, used to run the functions above on
  concrete inputs: the dataset ids, the tables and the loads received so far. A fetch
  answers \<open>NotFound\<close> for what is absent, a creation refuses what is present, a load job
  is numbered by its position and always succeeds.
\<close>

record warehouse =
  wh_datasets :: "string list"
  wh_tables :: "table list"
  wh_loads :: "(string \<times> pandas \<times> job_config) list"

fun table_id_of :: "table \<Rightarrow> string" where
  "table_id_of (Table table_id _) = table_id"

definition memory_client :: "warehouse client" where
  "memory_client =
     \<lparr>get_dataset = (\<lambda>d s. (if d \<in> set (wh_datasets s) then Inr () else Inl NotFound, s)),
      create_dataset = (\<lambda>ds s. case ds of Dataset d \<Rightarrow>
         if d \<in> set (wh_datasets s) then (Inl (ApiError ''Conflict''), s)
         else (Inr (), s\<lparr>wh_datasets := wh_datasets s @ [d]\<rparr>)),
      get_table = (\<lambda>t s. (if t \<in> set (map table_id_of (wh_tables s)) then Inr ()
                           else Inl NotFound, s)),
      create_table = (\<lambda>tb s.
         if table_id_of tb \<in> set (map table_id_of (wh_tables s))
         then (Inl (ApiError ''Conflict''), s)
         else (Inr (), s\<lparr>wh_tables := wh_tables s @ [tb]\<rparr>)),
      load_table_from_dataframe = (\<lambda>frame t cfg s.
         (Inr (LoadJob (length (wh_loads s))), s\<lparr>wh_loads := wh_loads s @ [(t, frame, cfg)]\<rparr>)),
      job_result = (\<lambda>j s. (Inr (), s))\<rparr>"

subsection \<open>Sample inputs\<close>

definition sample_frame :: dataframe where
  "sample_frame =
     DataFrame [\<lparr>series_name = ''id'', series_dtype = Int64, series_values = [PyInt 1]\<rparr>,
                \<lparr>series_name = ''name'', series_dtype = Utf8, series_values = [PyStr ''Ann'']\<rparr>]"

definition fresh_world :: "warehouse world" where
  "fresh_world =
     \<lparr>remote = \<lparr>wh_datasets = [], wh_tables = [], wh_loads = []\<rparr>, calls = [], stdout = []\<rparr>"

definition provisioned_world :: "warehouse world" where
  "provisioned_world =
     \<lparr>remote = \<lparr>wh_datasets = [''p.d''],
                 wh_tables = [Table ''p.d.t'' [SchemaField ''id'' ''INTEGER'',
                                               SchemaField ''name'' ''STRING'']],
                 wh_loads = []\<rparr>,
      calls = [], stdout = []\<rparr>"

text \<open>A frame with a column of 128-bit integers, as Polars infers for a value past 64 bits.\<close>

definition big_int_frame :: dataframe where
  "big_int_frame =
     DataFrame [\<lparr>series_name = ''n'', series_dtype = Int128,
                 series_values = [PyInt 1180591620717411303424]\<rparr>]"

text \<open>
  A sample of the BigQuery constructors: a dataset identifier has two dot-separated
  segments and a table identifier three, anything else raises \<open>ValueError\<close>.
\<close>

definition qualified_ids :: bigquery where
  "qualified_ids =
     \<lparr>new_Dataset = (\<lambda>d. if length (str_split (CHR ''.'') d) = 2 then Inr (Dataset d)
                          else Inl ValueError),
      new_Table = (\<lambda>t schema. if length (str_split (CHR ''.'') t) = 3 then Inr (Table t schema)
                               else Inl ValueError)\<rparr>"

text \<open>
  A sample conversion: it raises on a frame with a column of 128-bit integers and wraps
  every other frame.
\<close>

definition narrow_to_pandas :: pandas_conversion where
  "narrow_to_pandas df =
     (if Int128 \<in> set (dtypes df) then Inl (PolarsError ''to_pandas'') else Inr (Pandas df))"

text \<open>A client whose fetches are refused for a reason other than absence.\<close>

definition forbidden_client :: "warehouse client" where
  "forbidden_client =
     memory_client\<lparr>get_dataset := (\<lambda>d s. (Inl (ApiError ''Forbidden''), s)),
                    get_table := (\<lambda>t s. (Inl (ApiError ''Forbidden''), s))\<rparr>"

text \<open>A service whose response has no \<^verbatim>\<open>"values"\<close>, as for an empty range.\<close>

definition missing_range_service :: sheets_service where
  "missing_range_service spreadsheet_id sheet_name = Inr Map.empty"

text \<open>A frame constructor that accepts every input and answers with the empty frame.\<close>

definition empty_frame_constructor :: frame_constructor where
  "empty_frame_constructor rows header = Inr (DataFrame [])"

section \<open>Properties\<close>

subsection \<open>The destination identifier\<close>

lemma str_split_not_Nil: "str_split sep s \<noteq> []"
  by (induction s) (auto split: list.splits)

lemma str_split_no_sep: "sep \<notin> set p \<Longrightarrow> str_split sep p = [p]"
  by (induction p) auto

lemma str_split_first:
  "sep \<notin> set p \<Longrightarrow> str_split sep (p @ sep # rest) = p # str_split sep rest"
  by (induction p) auto

text \<open>Joining the pieces with the separator gives the string back.\<close>

lemma str_join_split: "str_join [sep] (str_split sep s) = s"
proof (induction s)
  case Nil
  show ?case by simp
next
  case (Cons c cs)
  obtain p ps where sp: "str_split sep cs = p # ps"
    using str_split_not_Nil [of sep cs] by (cases "str_split sep cs") auto
  show ?case
  proof (cases "c = sep")
    case True
    with Cons sp show ?thesis by simp
  next
    case False
    with Cons sp show ?thesis by (cases ps) auto
  qed
qed

text \<open>
  C9. For a destination identifier \<open>project.dataset.table\<close>, whose project and dataset
  segments hold no dot, the dataset identifier used for provisioning is
  \<open>project.dataset\<close>: the first two dot-separated segments joined by a dot. (What follows
  the second dot may be anything.)
\<close>

theorem dataset_id_first_two_segments:
  assumes "CHR ''.'' \<notin> set project" and "CHR ''.'' \<notin> set dataset"
  shows "dataset_id_of (project @ ''.'' @ dataset @ ''.'' @ table) = project @ ''.'' @ dataset"
proof -
  have "str_split (CHR ''.'') (project @ CHR ''.'' # dataset @ CHR ''.'' # table)
        = project # dataset # str_split (CHR ''.'') table"
    using assms by (simp add: str_split_first)
  then show ?thesis
    by (simp add: dataset_id_of_def)
qed

theorem dataset_id_first_two_segments_witness:
  "CHR ''.'' \<notin> set ''gsbq-demo'' \<and> CHR ''.'' \<notin> set ''gsbq_dataset''
   \<and> dataset_id_of ''gsbq-demo.gsbq_dataset.sample_table'' = ''gsbq-demo.gsbq_dataset''"
  using dataset_id_first_two_segments [of "''gsbq-demo''" "''gsbq_dataset''" "''sample_table''"]
  by simp

text \<open>
  The script provisions with that identifier: once the sheet is read and the frame built,
  the run is the three warehouse steps on \<open>gsbq-demo.gsbq_dataset\<close> and on the table.
\<close>

lemma main_dataset_id:
  assumes "authenticate ''google_service_account_key.json'' = Inr (service, client)"
    and "get_sheet_data service ''1Ba5nr8nzBh2MSVzIOpvtmHtzWqjDT4aP5G2YBkZN1mk'' ''Sheet1''
         = Inr raw_data"
    and "convert_data_to_dataframe pl_DataFrame raw_data = Inr df"
  shows "main authenticate bigquery pl_DataFrame to_pandas w =
     (case create_dataset_if_not_exists bigquery client ''gsbq-demo.gsbq_dataset'' w of
        (Inl e, w1) \<Rightarrow> (Inl e, w1)
      | (Inr u, w1) \<Rightarrow>
         (case create_table_if_not_exists bigquery client
                 ''gsbq-demo.gsbq_dataset.sample_table'' df w1 of
            (Inl e, w2) \<Rightarrow> (Inl e, w2)
          | (Inr u, w2) \<Rightarrow>
             (case upload_to_bigquery client to_pandas df
                     ''gsbq-demo.gsbq_dataset.sample_table'' w2 of
                (Inl e, w3) \<Rightarrow> (Inl e, w3)
              | (Inr u, w3) \<Rightarrow>
                  (Inr (),
                   print ''Data successfully transferred from Google Sheets to BigQuery.''
                     w3))))"
  using assms by (simp add: main_def dataset_id_of_def Let_def split: prod.splits sum.splits)

subsection \<open>Source Reader and Normalizer\<close>

text \<open>
  The Normalizer's own code is the subscript and the slice. On the empty grid the
  subscript raises before Polars is called; on any other grid the result is whatever the
  constructor answers for the rows after the first and the first row as the schema.
\<close>

lemma convert_data_to_dataframe_Nil:
  "convert_data_to_dataframe pl_DataFrame [] = Inl IndexError"
  by (simp add: convert_data_to_dataframe_def getitem_def)

lemma convert_data_to_dataframe_Cons:
  "convert_data_to_dataframe pl_DataFrame (header # rows) = pl_DataFrame rows header"
  by (simp add: convert_data_to_dataframe_def getitem_def)

text \<open>
  C2, as stated, fails: for a response without \<^verbatim>\<open>"values"\<close> the Source Reader returns
  the empty grid, and on the empty grid the Normalizer raises \<open>IndexError\<close>, even with a
  constructor that accepts everything.
\<close>

theorem empty_range_counterexample:
  "get_sheet_data missing_range_service ''doc'' ''Sheet1'' = Inr []
   \<and> convert_data_to_dataframe empty_frame_constructor [] = Inl IndexError"
  by (simp add: get_sheet_data_def missing_range_service_def convert_data_to_dataframe_def
        getitem_def)

text \<open>
  C2, amended. For every source response denoting an empty or missing range (no
  \<^verbatim>\<open>"values"\<close> key, or an empty list under it), the Source Reader returns the empty grid
  (zero rows), and feeding that empty grid through the Normalizer raises \<open>IndexError\<close>: no
  table is produced, whatever the frame constructor would do.
\<close>

theorem empty_range_raises:
  assumes "service spreadsheet_id sheet_name = Inr data"
    and "data ''values'' = None \<or> data ''values'' = Some []"
  shows "get_sheet_data service spreadsheet_id sheet_name = Inr []
         \<and> convert_data_to_dataframe pl_DataFrame [] = Inl IndexError"
  using assms by (auto simp: get_sheet_data_def convert_data_to_dataframe_Nil)

theorem empty_range_raises_witness:
  "missing_range_service ''doc'' ''Sheet1'' = Inr Map.empty
   \<and> get_sheet_data missing_range_service ''doc'' ''Sheet1'' = Inr []
   \<and> convert_data_to_dataframe empty_frame_constructor [] = Inl IndexError"
  using empty_range_raises [of missing_range_service "''doc''" "''Sheet1''" Map.empty
      empty_frame_constructor]
  by (simp add: missing_range_service_def)

text \<open>The whole run then stops with that error before any call on the warehouse.\<close>

lemma main_empty_range:
  assumes "authenticate ''google_service_account_key.json'' = Inr (service, client)"
    and "service ''1Ba5nr8nzBh2MSVzIOpvtmHtzWqjDT4aP5G2YBkZN1mk'' ''Sheet1'' = Inr data"
    and "data ''values'' = None \<or> data ''values'' = Some []"
  shows "main authenticate bigquery pl_DataFrame to_pandas w = (Inl IndexError, w)"
  using assms
  by (auto simp: main_def get_sheet_data_def convert_data_to_dataframe_Nil)

text \<open>
  No frame constructor both accepts every header-only grid and rejects every header that
  repeats a name: the header \<open>a, a\<close> with no data row is one grid.
\<close>

lemma header_only_versus_duplicates:
  "\<not> ((\<forall>header. \<exists>df. convert_data_to_dataframe pl_DataFrame [header] = Inr df) \<and>
      (\<forall>header rows. \<not> distinct header
         \<longrightarrow> (\<exists>e. convert_data_to_dataframe pl_DataFrame (header # rows) = Inl e)))"
proof
  assume h: "(\<forall>header. \<exists>df. convert_data_to_dataframe pl_DataFrame [header] = Inr df) \<and>
      (\<forall>header rows. \<not> distinct header
         \<longrightarrow> (\<exists>e. convert_data_to_dataframe pl_DataFrame (header # rows) = Inl e))"
  then obtain df where "convert_data_to_dataframe pl_DataFrame [[PyStr ''a'', PyStr ''a'']] = Inr df"
    by blast
  moreover from h obtain e
    where "convert_data_to_dataframe pl_DataFrame ([PyStr ''a'', PyStr ''a''] # []) = Inl e"
    by fastforce
  ultimately show False by simp
qed

subsection \<open>Schema Mapper\<close>

lemma zip_strict_map:
  "zip_strict (map f xs) (map g xs) = Inr (map (\<lambda>x. (f x, g x)) xs)"
  by (induction xs) auto

text \<open>The strict \<^verbatim>\<open>zip\<close> never raises here: a frame has one dtype per column.\<close>

lemma schema_of_total:
  "schema_of df =
     Inr (map (\<lambda>s. SchemaField (series_name s) (field_type (series_dtype s))) (series_of df))"
  by (simp add: schema_of_def columns_def dtypes_def zip_strict_map)

lemma schema_of_arity:
  "\<exists>schema. schema_of df = Inr schema \<and> length schema = length (columns df)"
  by (simp add: schema_of_total columns_def)

text \<open>
  C5. For every frame the Schema Mapper returns a schema and never raises: one field per
  column, in order, named as the column, with the type \<open>Int64\<close> to INTEGER, \<open>Float64\<close> to
  FLOAT, \<open>Boolean\<close> to BOOLEAN, every \<open>Datetime\<close> to DATETIME, \<open>Date\<close> to DATE, and
  every other dtype to STRING.
\<close>

theorem schema_mapper_total:
  "schema_of df =
     Inr (map (\<lambda>s. SchemaField (series_name s) (field_type (series_dtype s))) (series_of df))
   \<and> field_type Int64 = ''INTEGER''
   \<and> field_type Float64 = ''FLOAT''
   \<and> field_type Boolean = ''BOOLEAN''
   \<and> field_type (Datetime unit zone) = ''DATETIME''
   \<and> field_type Date = ''DATE''
   \<and> (t \<noteq> Int64 \<and> t \<noteq> Float64 \<and> t \<noteq> Boolean \<and> \<not> is_Datetime t \<and> t \<noteq> Date
        \<longrightarrow> field_type t = ''STRING'')"
  by (simp add: schema_of_total field_type_def)

theorem schema_mapper_total_witness:
  "schema_of (DataFrame [\<lparr>series_name = ''id'', series_dtype = Int64, series_values = [PyInt 1]\<rparr>,
                          \<lparr>series_name = ''name'', series_dtype = Utf8, series_values = [PyStr ''Ann'']\<rparr>,
                          \<lparr>series_name = ''score'', series_dtype = Float64, series_values = [PyNone]\<rparr>])
     = Inr [SchemaField ''id'' ''INTEGER'', SchemaField ''name'' ''STRING'',
            SchemaField ''score'' ''FLOAT'']
   \<and> Utf8 \<noteq> Int64 \<and> Utf8 \<noteq> Float64 \<and> Utf8 \<noteq> Boolean \<and> \<not> is_Datetime Utf8 \<and> Utf8 \<noteq> Date
   \<and> field_type Utf8 = ''STRING''"
  using schema_mapper_total
    [of "DataFrame [\<lparr>series_name = ''id'', series_dtype = Int64, series_values = [PyInt 1]\<rparr>,
                    \<lparr>series_name = ''name'', series_dtype = Utf8, series_values = [PyStr ''Ann'']\<rparr>,
                    \<lparr>series_name = ''score'', series_dtype = Float64, series_values = [PyNone]\<rparr>]"
        Us None Utf8]
  by simp

subsection \<open>Destination Provisioner\<close>

text \<open>
  Each provisioner first builds the dataset or the table from its identifier; when the
  constructor raises, the exception leaves the function before any call on the client.
\<close>

lemma dataset_rejected:
  assumes "new_Dataset bigquery d = Inl e"
  shows "create_dataset_if_not_exists bigquery client d w = (Inl e, w)"
  using assms by (simp add: create_dataset_if_not_exists_def)

lemma table_rejected:
  assumes "schema_of df = Inr schema" and "new_Table bigquery t schema = Inl e"
  shows "create_table_if_not_exists bigquery client t df w = (Inl e, w)"
  using assms by (simp add: create_table_if_not_exists_def)

lemma malformed_ids_raise:
  "create_dataset_if_not_exists qualified_ids memory_client ''abc'' fresh_world
     = (Inl ValueError, fresh_world)
   \<and> create_table_if_not_exists qualified_ids memory_client ''p.t'' sample_frame fresh_world
     = (Inl ValueError, fresh_world)"
  by (simp add: create_dataset_if_not_exists_def create_table_if_not_exists_def
        qualified_ids_def schema_of_total)

text \<open>
  Otherwise it makes one fetch. What follows depends on the fetch alone: a value ends the
  function, \<open>NotFound\<close> leads to the creation and the notice, any other exception leaves
  the function as it came.
\<close>

lemma dataset_found:
  assumes "new_Dataset bigquery d = Inr ds"
    and "get_dataset client d (remote w) = (Inr (), s)"
  shows "create_dataset_if_not_exists bigquery client d w
         = (Inr (), w\<lparr>remote := s, calls := calls w @ [GetDataset d]\<rparr>)"
  using assms by (simp add: create_dataset_if_not_exists_def invoke_def)

lemma dataset_not_found:
  assumes "new_Dataset bigquery d = Inr ds"
    and "get_dataset client d (remote w) = (Inl NotFound, s)"
  shows "create_dataset_if_not_exists bigquery client d w
         = (case create_dataset client ds s of
              (Inl e, s') \<Rightarrow>
                (Inl e, w\<lparr>remote := s', calls := calls w @ [GetDataset d, CreateDataset ds]\<rparr>)
            | (Inr u, s') \<Rightarrow>
                (Inr (), w\<lparr>remote := s',
                           calls := calls w @ [GetDataset d, CreateDataset ds],
                           stdout := stdout w @ [''Dataset '' @ d @ '' created.'']\<rparr>))"
  using assms
  by (simp add: create_dataset_if_not_exists_def invoke_def print_def
           split: prod.splits sum.splits)

lemma dataset_fetch_error:
  assumes "new_Dataset bigquery d = Inr ds"
    and "get_dataset client d (remote w) = (Inl e, s)" and "e \<noteq> NotFound"
  shows "create_dataset_if_not_exists bigquery client d w
         = (Inl e, w\<lparr>remote := s, calls := calls w @ [GetDataset d]\<rparr>)"
  using assms by (simp add: create_dataset_if_not_exists_def invoke_def)

lemma table_found:
  assumes "schema_of df = Inr schema" and "new_Table bigquery t schema = Inr tb"
    and "get_table client t (remote w) = (Inr (), s)"
  shows "create_table_if_not_exists bigquery client t df w
         = (Inr (), w\<lparr>remote := s, calls := calls w @ [GetTable t]\<rparr>)"
  using assms by (simp add: create_table_if_not_exists_def invoke_def)

lemma table_not_found:
  assumes "schema_of df = Inr schema" and "new_Table bigquery t schema = Inr tb"
    and "get_table client t (remote w) = (Inl NotFound, s)"
  shows "create_table_if_not_exists bigquery client t df w
         = (case create_table client tb s of
              (Inl e, s') \<Rightarrow>
                (Inl e, w\<lparr>remote := s', calls := calls w @ [GetTable t, CreateTable tb]\<rparr>)
            | (Inr u, s') \<Rightarrow>
                (Inr (), w\<lparr>remote := s',
                           calls := calls w @ [GetTable t, CreateTable tb],
                           stdout := stdout w @ [''Table '' @ t @ '' created.'']\<rparr>))"
  using assms
  by (simp add: create_table_if_not_exists_def invoke_def print_def
           split: prod.splits sum.splits)

lemma table_fetch_error:
  assumes "schema_of df = Inr schema" and "new_Table bigquery t schema = Inr tb"
    and "get_table client t (remote w) = (Inl e, s)" and "e \<noteq> NotFound"
  shows "create_table_if_not_exists bigquery client t df w
         = (Inl e, w\<lparr>remote := s, calls := calls w @ [GetTable t]\<rparr>)"
  using assms by (simp add: create_table_if_not_exists_def invoke_def)

text \<open>
  C6. Provisioning is idempotent. The identifiers are ones the BigQuery constructors
  accept, as those of a dataset and a table that exist, or that a fetch reports on, are.
  In every state where the fetches of the dataset and of the table succeed (both exist; a
  fetch reads and leaves the state as it is), the two provisioners, run once or twice in a
  row, return normally, leave the remote state and the output unchanged and make only
  fetches, no create call. When a fetch reports \<open>NotFound\<close>, the create call for that
  resource follows (the table with the mapped schema), and the outcome and the remote
  state are those of the creation. Any other exception of a fetch is returned as it is,
  with no further call.
\<close>

theorem provisioning_idempotent:
  "(new_Dataset bigquery d = Inr ds \<and> schema_of df = Inr schema \<and>
    new_Table bigquery t schema = Inr tb \<and>
    get_dataset client d (remote w) = (Inr (), remote w) \<and>
    get_table client t (remote w) = (Inr (), remote w) \<longrightarrow>
      create_dataset_if_not_exists bigquery client d w
        = (Inr (), w\<lparr>calls := calls w @ [GetDataset d]\<rparr>) \<and>
      create_table_if_not_exists bigquery client t df (w\<lparr>calls := calls w @ [GetDataset d]\<rparr>)
        = (Inr (), w\<lparr>calls := calls w @ [GetDataset d, GetTable t]\<rparr>) \<and>
      create_dataset_if_not_exists bigquery client d
          (w\<lparr>calls := calls w @ [GetDataset d, GetTable t]\<rparr>)
        = (Inr (), w\<lparr>calls := calls w @ [GetDataset d, GetTable t, GetDataset d]\<rparr>) \<and>
      create_table_if_not_exists bigquery client t df
          (w\<lparr>calls := calls w @ [GetDataset d, GetTable t, GetDataset d]\<rparr>)
        = (Inr (), w\<lparr>calls := calls w @ [GetDataset d, GetTable t, GetDataset d, GetTable t]\<rparr>) \<and>
      filter is_create [GetDataset d, GetTable t, GetDataset d, GetTable t] = [])
   \<and> (new_Dataset bigquery d = Inr ds \<and>
      get_dataset client d (remote w) = (Inl NotFound, s) \<longrightarrow>
        calls (snd (create_dataset_if_not_exists bigquery client d w))
          = calls w @ [GetDataset d, CreateDataset ds] \<and>
        (fst (create_dataset_if_not_exists bigquery client d w),
         remote (snd (create_dataset_if_not_exists bigquery client d w)))
          = create_dataset client ds s)
   \<and> (schema_of df = Inr schema \<and> new_Table bigquery t schema = Inr tb \<and>
      get_table client t (remote w) = (Inl NotFound, s) \<longrightarrow>
        calls (snd (create_table_if_not_exists bigquery client t df w))
          = calls w @ [GetTable t, CreateTable tb] \<and>
        (fst (create_table_if_not_exists bigquery client t df w),
         remote (snd (create_table_if_not_exists bigquery client t df w)))
          = create_table client tb s)
   \<and> (new_Dataset bigquery d = Inr ds \<and>
      get_dataset client d (remote w) = (Inl e, s) \<and> e \<noteq> NotFound \<longrightarrow>
        create_dataset_if_not_exists bigquery client d w
          = (Inl e, w\<lparr>remote := s, calls := calls w @ [GetDataset d]\<rparr>))
   \<and> (schema_of df = Inr schema \<and> new_Table bigquery t schema = Inr tb \<and>
      get_table client t (remote w) = (Inl e, s) \<and> e \<noteq> NotFound \<longrightarrow>
        create_table_if_not_exists bigquery client t df w
          = (Inl e, w\<lparr>remote := s, calls := calls w @ [GetTable t]\<rparr>))"
proof (intro conjI impI)
  assume ex: "new_Dataset bigquery d = Inr ds \<and> schema_of df = Inr schema \<and>
    new_Table bigquery t schema = Inr tb \<and>
    get_dataset client d (remote w) = (Inr (), remote w) \<and>
    get_table client t (remote w) = (Inr (), remote w)"
  then have nd: "new_Dataset bigquery d = Inr ds"
    and sc: "schema_of df = Inr schema"
    and nt: "new_Table bigquery t schema = Inr tb"
    by simp_all
  show "create_dataset_if_not_exists bigquery client d w
        = (Inr (), w\<lparr>calls := calls w @ [GetDataset d]\<rparr>)"
    using ex dataset_found [OF nd, of client w "remote w"] by simp
  show "create_table_if_not_exists bigquery client t df (w\<lparr>calls := calls w @ [GetDataset d]\<rparr>)
        = (Inr (), w\<lparr>calls := calls w @ [GetDataset d, GetTable t]\<rparr>)"
    using ex table_found [OF sc nt, of client "w\<lparr>calls := calls w @ [GetDataset d]\<rparr>" "remote w"]
    by simp
  show "create_dataset_if_not_exists bigquery client d
          (w\<lparr>calls := calls w @ [GetDataset d, GetTable t]\<rparr>)
        = (Inr (), w\<lparr>calls := calls w @ [GetDataset d, GetTable t, GetDataset d]\<rparr>)"
    using ex
      dataset_found [OF nd, of client "w\<lparr>calls := calls w @ [GetDataset d, GetTable t]\<rparr>"
                       "remote w"]
    by simp
  show "create_table_if_not_exists bigquery client t df
          (w\<lparr>calls := calls w @ [GetDataset d, GetTable t, GetDataset d]\<rparr>)
        = (Inr (), w\<lparr>calls := calls w @ [GetDataset d, GetTable t, GetDataset d, GetTable t]\<rparr>)"
    using ex
      table_found [OF sc nt, of client
                     "w\<lparr>calls := calls w @ [GetDataset d, GetTable t, GetDataset d]\<rparr>" "remote w"]
    by simp
  show "filter is_create [GetDataset d, GetTable t, GetDataset d, GetTable t] = []"
    by simp
next
  assume "new_Dataset bigquery d = Inr ds \<and>
          get_dataset client d (remote w) = (Inl NotFound, s)"
  then have nd: "new_Dataset bigquery d = Inr ds"
    and nf: "get_dataset client d (remote w) = (Inl NotFound, s)"
    by simp_all
  note eq = dataset_not_found [OF nd nf]
  show "calls (snd (create_dataset_if_not_exists bigquery client d w))
        = calls w @ [GetDataset d, CreateDataset ds]"
    by (simp add: eq split: prod.splits sum.splits)
  show "(fst (create_dataset_if_not_exists bigquery client d w),
         remote (snd (create_dataset_if_not_exists bigquery client d w)))
        = create_dataset client ds s"
    by (simp add: eq split: prod.splits sum.splits)
next
  assume "schema_of df = Inr schema \<and> new_Table bigquery t schema = Inr tb \<and>
          get_table client t (remote w) = (Inl NotFound, s)"
  then have sc: "schema_of df = Inr schema"
    and nt: "new_Table bigquery t schema = Inr tb"
    and nf: "get_table client t (remote w) = (Inl NotFound, s)"
    by simp_all
  note eq = table_not_found [OF sc nt nf]
  show "calls (snd (create_table_if_not_exists bigquery client t df w))
        = calls w @ [GetTable t, CreateTable tb]"
    by (simp add: eq split: prod.splits sum.splits)
  show "(fst (create_table_if_not_exists bigquery client t df w),
         remote (snd (create_table_if_not_exists bigquery client t df w)))
        = create_table client tb s"
    by (simp add: eq split: prod.splits sum.splits)
next
  assume "new_Dataset bigquery d = Inr ds \<and>
          get_dataset client d (remote w) = (Inl e, s) \<and> e \<noteq> NotFound"
  then show "create_dataset_if_not_exists bigquery client d w
        = (Inl e, w\<lparr>remote := s, calls := calls w @ [GetDataset d]\<rparr>)"
    by (intro dataset_fetch_error [of bigquery d ds]) simp_all
next
  assume "schema_of df = Inr schema \<and> new_Table bigquery t schema = Inr tb \<and>
          get_table client t (remote w) = (Inl e, s) \<and> e \<noteq> NotFound"
  then show "create_table_if_not_exists bigquery client t df w
        = (Inl e, w\<lparr>remote := s, calls := calls w @ [GetTable t]\<rparr>)"
    by (intro table_fetch_error [of df schema bigquery t tb]) simp_all
qed

theorem provisioning_idempotent_witness:
  "(new_Dataset qualified_ids ''p.d'' = Inr (Dataset ''p.d'') \<and>
    schema_of sample_frame
      = Inr [SchemaField ''id'' ''INTEGER'', SchemaField ''name'' ''STRING''] \<and>
    new_Table qualified_ids ''p.d.t'' [SchemaField ''id'' ''INTEGER'', SchemaField ''name'' ''STRING'']
      = Inr (Table ''p.d.t'' [SchemaField ''id'' ''INTEGER'', SchemaField ''name'' ''STRING'']) \<and>
    get_dataset memory_client ''p.d'' (remote provisioned_world)
      = (Inr (), remote provisioned_world) \<and>
    get_table memory_client ''p.d.t'' (remote provisioned_world)
      = (Inr (), remote provisioned_world) \<and>
    create_dataset_if_not_exists qualified_ids memory_client ''p.d'' provisioned_world
      = (Inr (), provisioned_world\<lparr>calls := [GetDataset ''p.d'']\<rparr>) \<and>
    create_table_if_not_exists qualified_ids memory_client ''p.d.t'' sample_frame
        (provisioned_world\<lparr>calls := [GetDataset ''p.d'']\<rparr>)
      = (Inr (), provisioned_world\<lparr>calls := [GetDataset ''p.d'', GetTable ''p.d.t'']\<rparr>) \<and>
    create_dataset_if_not_exists qualified_ids memory_client ''p.d''
        (provisioned_world\<lparr>calls := [GetDataset ''p.d'', GetTable ''p.d.t'']\<rparr>)
      = (Inr (), provisioned_world
           \<lparr>calls := [GetDataset ''p.d'', GetTable ''p.d.t'', GetDataset ''p.d'']\<rparr>) \<and>
    create_table_if_not_exists qualified_ids memory_client ''p.d.t'' sample_frame
        (provisioned_world\<lparr>calls := [GetDataset ''p.d'', GetTable ''p.d.t'', GetDataset ''p.d'']\<rparr>)
      = (Inr (), provisioned_world
           \<lparr>calls := [GetDataset ''p.d'', GetTable ''p.d.t'', GetDataset ''p.d'',
                      GetTable ''p.d.t'']\<rparr>))
   \<and> (get_dataset memory_client ''p.d'' (remote fresh_world) = (Inl NotFound, remote fresh_world) \<and>
      create_dataset_if_not_exists qualified_ids memory_client ''p.d'' fresh_world
        = (Inr (), \<lparr>remote = \<lparr>wh_datasets = [''p.d''], wh_tables = [], wh_loads = []\<rparr>,
                    calls = [GetDataset ''p.d'', CreateDataset (Dataset ''p.d'')],
                    stdout = [''Dataset p.d created.'']\<rparr>))
   \<and> (get_table memory_client ''p.d.t'' (remote fresh_world) = (Inl NotFound, remote fresh_world) \<and>
      create_table_if_not_exists qualified_ids memory_client ''p.d.t'' sample_frame fresh_world
        = (Inr (), \<lparr>remote = \<lparr>wh_datasets = [],
                               wh_tables = [Table ''p.d.t'' [SchemaField ''id'' ''INTEGER'',
                                                             SchemaField ''name'' ''STRING'']],
                               wh_loads = []\<rparr>,
                    calls = [GetTable ''p.d.t'',
                             CreateTable (Table ''p.d.t'' [SchemaField ''id'' ''INTEGER'',
                                                           SchemaField ''name'' ''STRING''])],
                    stdout = [''Table p.d.t created.'']\<rparr>))
   \<and> (get_dataset forbidden_client ''p.d'' (remote fresh_world)
        = (Inl (ApiError ''Forbidden''), remote fresh_world) \<and>
      ApiError ''Forbidden'' \<noteq> NotFound \<and>
      create_dataset_if_not_exists qualified_ids forbidden_client ''p.d'' fresh_world
        = (Inl (ApiError ''Forbidden''), fresh_world\<lparr>calls := [GetDataset ''p.d'']\<rparr>))
   \<and> (get_table forbidden_client ''p.d.t'' (remote fresh_world)
        = (Inl (ApiError ''Forbidden''), remote fresh_world) \<and>
      create_table_if_not_exists qualified_ids forbidden_client ''p.d.t'' sample_frame fresh_world
        = (Inl (ApiError ''Forbidden''), fresh_world\<lparr>calls := [GetTable ''p.d.t'']\<rparr>))"
  using
    provisioning_idempotent [where bigquery = qualified_ids and client = memory_client
      and d = "''p.d''" and t = "''p.d.t''" and w = provisioned_world and df = sample_frame
      and ds = "Dataset ''p.d''"
      and schema = "[SchemaField ''id'' ''INTEGER'', SchemaField ''name'' ''STRING'']"
      and tb = "Table ''p.d.t'' [SchemaField ''id'' ''INTEGER'', SchemaField ''name'' ''STRING'']"]
    provisioning_idempotent [where bigquery = qualified_ids and client = memory_client
      and d = "''p.d''" and t = "''p.d.t''" and w = fresh_world and df = sample_frame
      and s = "remote fresh_world" and ds = "Dataset ''p.d''"
      and schema = "[SchemaField ''id'' ''INTEGER'', SchemaField ''name'' ''STRING'']"
      and tb = "Table ''p.d.t'' [SchemaField ''id'' ''INTEGER'', SchemaField ''name'' ''STRING'']"]
    provisioning_idempotent [where bigquery = qualified_ids and client = forbidden_client
      and d = "''p.d''" and t = "''p.d.t''" and w = fresh_world and df = sample_frame
      and s = "remote fresh_world" and e = "ApiError ''Forbidden''" and ds = "Dataset ''p.d''"
      and schema = "[SchemaField ''id'' ''INTEGER'', SchemaField ''name'' ''STRING'']"
      and tb = "Table ''p.d.t'' [SchemaField ''id'' ''INTEGER'', SchemaField ''name'' ''STRING'']"]
  by (simp add: memory_client_def forbidden_client_def qualified_ids_def provisioned_world_def
        fresh_world_def sample_frame_def schema_of_total field_type_def
        create_dataset_if_not_exists_def create_table_if_not_exists_def invoke_def print_def
        Let_def)

subsection \<open>Loader\<close>

lemma upload_conversion_raises:
  assumes "to_pandas df = Inl e"
  shows "upload_to_bigquery client to_pandas df t w = (Inl e, w)"
  using assms by (simp add: upload_to_bigquery_def)

lemma upload_submit_raises:
  assumes "to_pandas df = Inr frame"
    and "load_table_from_dataframe client frame t
           \<lparr>autodetect = True, write_disposition = ''WRITE_APPEND''\<rparr> (remote w) = (Inl e, s)"
  shows "upload_to_bigquery client to_pandas df t w
         = (Inl e, w\<lparr>remote := s,
                     calls := calls w @ [LoadTableFromDataframe frame t
                       \<lparr>autodetect = True, write_disposition = ''WRITE_APPEND''\<rparr>]\<rparr>)"
  using assms by (simp add: upload_to_bigquery_def invoke_def)

lemma upload_submitted:
  assumes "to_pandas df = Inr frame"
    and "load_table_from_dataframe client frame t
           \<lparr>autodetect = True, write_disposition = ''WRITE_APPEND''\<rparr> (remote w) = (Inr job, s)"
  shows "upload_to_bigquery client to_pandas df t w
         = (fst (job_result client job s),
            w\<lparr>remote := snd (job_result client job s),
              calls := calls w @ [LoadTableFromDataframe frame t
                         \<lparr>autodetect = True, write_disposition = ''WRITE_APPEND''\<rparr>,
                       JobResult job]\<rparr>)"
  using assms by (simp add: upload_to_bigquery_def invoke_def split: prod.splits)

text \<open>
  C8, as stated, fails: the conversion \<^verbatim>\<open>dataframe.to_pandas()\<close> is evaluated before
  the load is submitted, and on a frame it raises for, the Loader raises with no load job
  submitted and no call on the client at all.
\<close>

theorem upload_conversion_counterexample:
  "narrow_to_pandas big_int_frame = Inl (PolarsError ''to_pandas'')
   \<and> upload_to_bigquery memory_client narrow_to_pandas big_int_frame ''p.d.t'' provisioned_world
     = (Inl (PolarsError ''to_pandas''), provisioned_world)
   \<and> filter is_load
       (calls (snd (upload_to_bigquery memory_client narrow_to_pandas big_int_frame ''p.d.t''
                      provisioned_world))) = []"
  by (simp add: upload_to_bigquery_def narrow_to_pandas_def big_int_frame_def dtypes_def
        provisioned_world_def)

text \<open>
  C8, amended. For every frame whose conversion to pandas returns, and every table
  identifier, the Loader submits exactly one load job, for that table and the converted
  frame, configured with schema autodetection on and the write disposition
  \<open>WRITE_APPEND\<close>; no other load follows. Whenever the submission returns a job, the
  Loader waits for its result and answers what the wait answers; so it returns normally
  only after the wait on the submitted job has returned normally. When the conversion
  raises, the Loader raises the same exception and submits nothing.
\<close>

theorem upload_one_append_job:
  "(to_pandas df = Inr frame \<longrightarrow>
     (\<exists>rest.
        calls (snd (upload_to_bigquery client to_pandas df t w))
          = calls w @ LoadTableFromDataframe frame t
                        \<lparr>autodetect = True, write_disposition = ''WRITE_APPEND''\<rparr> # rest
        \<and> filter is_load rest = []
        \<and> (\<forall>job s. load_table_from_dataframe client frame t
                        \<lparr>autodetect = True, write_disposition = ''WRITE_APPEND''\<rparr> (remote w)
                      = (Inr job, s)
               \<longrightarrow> rest = [JobResult job]
                   \<and> fst (upload_to_bigquery client to_pandas df t w)
                     = fst (job_result client job s))
        \<and> (fst (upload_to_bigquery client to_pandas df t w) = Inr ()
               \<longrightarrow> (\<exists>job s. load_table_from_dataframe client frame t
                                \<lparr>autodetect = True, write_disposition = ''WRITE_APPEND''\<rparr>
                                (remote w)
                              = (Inr job, s)
                            \<and> rest = [JobResult job]
                            \<and> job_result client job s
                              = (Inr (),
                                 remote (snd (upload_to_bigquery client to_pandas df t w)))))))
   \<and> (to_pandas df = Inl e \<longrightarrow> upload_to_bigquery client to_pandas df t w = (Inl e, w))"
proof (intro conjI impI)
  assume conv: "to_pandas df = Inr frame"
  obtain r s where sub: "load_table_from_dataframe client frame t
      \<lparr>autodetect = True, write_disposition = ''WRITE_APPEND''\<rparr> (remote w) = (r, s)"
    by (cases "load_table_from_dataframe client frame t
      \<lparr>autodetect = True, write_disposition = ''WRITE_APPEND''\<rparr> (remote w)") auto
  show "\<exists>rest.
        calls (snd (upload_to_bigquery client to_pandas df t w))
          = calls w @ LoadTableFromDataframe frame t
                        \<lparr>autodetect = True, write_disposition = ''WRITE_APPEND''\<rparr> # rest
        \<and> filter is_load rest = []
        \<and> (\<forall>job s. load_table_from_dataframe client frame t
                        \<lparr>autodetect = True, write_disposition = ''WRITE_APPEND''\<rparr> (remote w)
                      = (Inr job, s)
               \<longrightarrow> rest = [JobResult job]
                   \<and> fst (upload_to_bigquery client to_pandas df t w)
                     = fst (job_result client job s))
        \<and> (fst (upload_to_bigquery client to_pandas df t w) = Inr ()
               \<longrightarrow> (\<exists>job s. load_table_from_dataframe client frame t
                                \<lparr>autodetect = True, write_disposition = ''WRITE_APPEND''\<rparr>
                                (remote w)
                              = (Inr job, s)
                            \<and> rest = [JobResult job]
                            \<and> job_result client job s
                              = (Inr (),
                                 remote (snd (upload_to_bigquery client to_pandas df t w)))))"
  proof (cases r)
    case (Inl e')
    with sub have "upload_to_bigquery client to_pandas df t w
         = (Inl e', w\<lparr>remote := s,
                      calls := calls w @ [LoadTableFromDataframe frame t
                        \<lparr>autodetect = True, write_disposition = ''WRITE_APPEND''\<rparr>]\<rparr>)"
      using conv by (simp add: upload_submit_raises)
    with sub Inl show ?thesis by simp
  next
    case (Inr job)
    with sub have "upload_to_bigquery client to_pandas df t w
         = (fst (job_result client job s),
            w\<lparr>remote := snd (job_result client job s),
              calls := calls w @ [LoadTableFromDataframe frame t
                         \<lparr>autodetect = True, write_disposition = ''WRITE_APPEND''\<rparr>,
                       JobResult job]\<rparr>)"
      using conv by (simp add: upload_submitted)
    with sub Inr show ?thesis by (simp add: prod_eq_iff)
  qed
next
  assume "to_pandas df = Inl e"
  then show "upload_to_bigquery client to_pandas df t w = (Inl e, w)"
    by (rule upload_conversion_raises)
qed

theorem upload_one_append_job_witness:
  "narrow_to_pandas sample_frame = Inr (Pandas sample_frame)
   \<and> upload_to_bigquery memory_client narrow_to_pandas sample_frame ''p.d.t'' provisioned_world
     = (Inr (),
        provisioned_world
          \<lparr>remote := (remote provisioned_world)
             \<lparr>wh_loads := [(''p.d.t'', Pandas sample_frame,
                            \<lparr>autodetect = True, write_disposition = ''WRITE_APPEND''\<rparr>)]\<rparr>,
           calls := [LoadTableFromDataframe (Pandas sample_frame) ''p.d.t''
                       \<lparr>autodetect = True, write_disposition = ''WRITE_APPEND''\<rparr>,
                     JobResult (LoadJob 0)]\<rparr>)
   \<and> narrow_to_pandas big_int_frame = Inl (PolarsError ''to_pandas'')
   \<and> upload_to_bigquery memory_client narrow_to_pandas big_int_frame ''p.d.t'' provisioned_world
     = (Inl (PolarsError ''to_pandas''), provisioned_world)"
  using
    upload_one_append_job [where client = memory_client and to_pandas = narrow_to_pandas
      and df = sample_frame and t = "''p.d.t''" and w = provisioned_world
      and frame = "Pandas sample_frame"]
    upload_one_append_job [where client = memory_client and to_pandas = narrow_to_pandas
      and df = big_int_frame and t = "''p.d.t''" and w = provisioned_world
      and e = "PolarsError ''to_pandas''"]
  by (simp add: upload_to_bigquery_def invoke_def memory_client_def provisioned_world_def
        narrow_to_pandas_def sample_frame_def big_int_frame_def dtypes_def Let_def)

end
